theory Spec2Isabelle
  imports Main
begin

section \<open>PDF to PNG conversion (app/lib/pdf2img-cdn.ts)\<close>

text \<open>
  The module exports one asynchronous function, \<open>convertPdfToImage\<close>, and keeps a
  memoized loader for the pdf.js engine. The embedding has two parts.

  \<^item> The conversion is modelled in run-to-completion style: every call into the browser
    or into pdf.js is a step whose outcome (a value, or a thrown value) is read from an
    environment record, and every step that is made is written to a trace. A promise
    is represented by the way it settles: \<open>Inr v\<close> when it fulfils with \<open>v\<close>,
    \<open>Inl e\<close> when it rejects with \<open>e\<close>. Awaited promises are taken to settle,
    and \<open>canvas.toBlob\<close>, when it does not throw, to call its callback.
    Logging is left out, except for the reads of line 115, which can throw.
  \<^item> The CDN loader is modelled as a state machine over the module variables
    \<open>isLoading\<close>, \<open>loadPromise\<close> and \<open>window.pdfjsLib\<close>, driven by calls and by
    the events of the injected script element, so that interleavings of several callers
    can be examined.
\<close>

subsection \<open>Data\<close>

text \<open>A browser \<open>File\<close>: its \<open>name\<close>, \<open>type\<close> and \<open>size\<close> (a byte count).\<close>

record File =
  fname :: string
  ftype :: string
  fsize :: nat

record Blob =
  blob_size :: nat

text \<open>\<open>interface PdfConversionResult\<close>; the optional \<open>error\<close> is an option.\<close>

record PdfConversionResult =
  imageUrl :: string
  "file" :: "File option"
  error :: "string option"

text \<open>
  A thrown value (or rejection reason): an instance of \<open>Error\<close> with its message, or
  some other non-nullish value, given by its \<open>String(...)\<close> rendering; such a value has no
  \<open>message\<close> property.
\<close>

datatype thrown = ErrorObj string | OtherValue string

text \<open>\<open>${e.message}\<close> inside a template literal.\<close>

fun message :: "thrown \<Rightarrow> string" where
  "message (ErrorObj m) = m"
| "message (OtherValue s) = ''undefined''"

text \<open>\<open>err instanceof Error ? err.message : String(err)\<close> (line 220).\<close>

fun errorMessage :: "thrown \<Rightarrow> string" where
  "errorMessage (ErrorObj m) = m"
| "errorMessage (OtherValue s) = s"

text \<open>
  The pdf.js module object. Every pdf.js build exports \<open>GlobalWorkerOptions\<close>, so only
  its \<open>workerSrc\<close> is kept; \<open>build\<close> tells the module instances apart.
\<close>

record pdfjs_lib =
  build :: string
  workerSrc :: string

text \<open>The steps a conversion makes outside its own code, in the order it makes them.\<close>

datatype call =
    ImportStandard
  | ImportBuildPath
  | LoadFromCDN
  | ArrayBuffer
  | GetDocument
  | GetPage nat
  | GetViewport nat
  | CreateCanvas
  | GetContext
  | FillRect nat nat
  | Render
  | ToBlob
  | NewFile
  | CreateObjectURL

text \<open>
  The outcome of each step in one run. \<open>cdn_promise\<close> is the way the promise returned by
  \<open>loadPdfJsFromCDN()\<close> settles for the awaiting caller; \<open>getDocument\<close> yields the
  document's \<open>numPages\<close>; \<open>getContext\<close> tells whether a 2D context was obtained;
  \<open>toBlob\<close> is what \<open>canvas.toBlob\<close> does: it throws (\<open>Inl\<close>, as it does with a
  \<open>SecurityError\<close> for a canvas that is not origin-clean), or it passes the callback a
  blob or \<open>null\<close> (\<open>Inr\<close>, with \<open>None\<close> for \<open>null\<close>);
  \<open>objectUrlId\<close> is the part of the object URL after the scheme.
\<close>

record env =
  import_standard :: "thrown + pdfjs_lib"
  import_build_path :: "thrown + pdfjs_lib"
  cdn_promise :: "thrown + pdfjs_lib"
  arrayBuffer :: "thrown + nat"
  getDocument :: "thrown + nat"
  getPage :: "thrown + unit"
  getViewport :: "nat \<times> nat"
  getContext :: bool
  render :: "thrown + unit"
  toBlob :: "thrown + Blob option"
  objectUrlId :: string

subsection \<open>Sequencing steps\<close>

text \<open>
  A computation yields the trace of the steps it made and either a thrown value or a
  result. \<open>bind_io\<close> is \<open>;\<close> (with \<open>await\<close> where the step is a promise): a throw
  skips the rest.
\<close>

type_synonym 'a io = "call list \<times> (thrown + 'a)"

definition ret :: "'a \<Rightarrow> 'a io" where
  "ret x = ([], Inr x)"

definition throw :: "thrown \<Rightarrow> 'a io" where
  "throw e = ([], Inl e)"

definition step :: "call \<Rightarrow> thrown + 'a \<Rightarrow> 'a io" where
  "step c outcome = ([c], outcome)"

definition bind_io :: "'a io \<Rightarrow> ('a \<Rightarrow> 'b io) \<Rightarrow> 'b io" where
  "bind_io m k =
     (case m of
        (t, Inl e) \<Rightarrow> (t, Inl e)
      | (t, Inr x) \<Rightarrow> (case k x of (t', r) \<Rightarrow> (t @ t', r)))"

subsection \<open>The engine loader, as one conversion sees it\<close>

text \<open>
  \<open>loadPdfJsLocal\<close> (lines 68-94): the standard import, on failure the build path; the
  outer \<open>catch\<close> rethrows what the second import threw. On success the worker source is
  set to the local file.
\<close>

definition loadPdfJsLocal :: "env \<Rightarrow> pdfjs_lib io" where
  "loadPdfJsLocal env =
     bind_io
       (case step ImportStandard (import_standard env) of
          (t, Inr lib) \<Rightarrow> (t, Inr lib)
        | (t, Inl e) \<Rightarrow>
            (case step ImportBuildPath (import_build_path env) of (t', r) \<Rightarrow> (t @ t', r)))
       (\<lambda>lib. ret (lib\<lparr>workerSrc := ''/pdf.worker.min.mjs''\<rparr>))"

text \<open>
  \<open>loadPdfJs\<close> (lines 96-109): local first; in the \<open>catch\<close>, the CDN; in the inner
  \<open>catch\<close>, a new \<open>Error\<close> whose message is built from both messages.
\<close>

definition loadPdfJs :: "env \<Rightarrow> pdfjs_lib io" where
  "loadPdfJs env =
     (case loadPdfJsLocal env of
        (t, Inr lib) \<Rightarrow> (t, Inr lib)
      | (t, Inl localError) \<Rightarrow>
          (case step LoadFromCDN (cdn_promise env) of
             (t', Inr lib) \<Rightarrow> (t @ t', Inr lib)
           | (t', Inl cdnError) \<Rightarrow>
               (t @ t',
                Inl (ErrorObj (''PDF.js loading failed: Local: '' @ message localError
                       @ '', CDN: '' @ message cdnError)))))"

subsection \<open>The conversion\<close>

text \<open>
  The message of the \<open>TypeError\<close> that reading \<open>file.name\<close> raises when the argument is
  \<open>null\<close>, in V8's wording; other engines word it differently.
\<close>

definition null_read_message :: string where
  "null_read_message = ''Cannot read properties of null (reading 'name')''"

text \<open>
  Line 115 reads \<open>file.name\<close> and \<open>file.size\<close> for the log line, before any check.
\<close>

definition read_name_size :: "File option \<Rightarrow> File io" where
  "read_name_size input =
     (case input of
        None \<Rightarrow> throw (ErrorObj null_read_message)
      | Some f \<Rightarrow> ret f)"

text \<open>Lines 115-132: the log line and the four checks, in the order of the source.\<close>

definition validate :: "File option \<Rightarrow> File io" where
  "validate input =
     bind_io (read_name_size input) (\<lambda>f.
       if input = None then throw (ErrorObj ''No file provided'')
       else if ftype f \<noteq> ''application/pdf'' then
         throw (ErrorObj (''Invalid file type: '' @ ftype f @ ''. Expected: application/pdf''))
       else if fsize f = 0 then throw (ErrorObj ''File is empty'')
       else if fsize f > 50 * 1024 * 1024 then throw (ErrorObj ''File is too large (max 50MB)'')
       else ret f)"

text \<open>
  \<open>name.replace(/\.pdf$/i, "")\<close> (line 195). \<open>pdf_ext_here s\<close> says that the pattern
  matches at the start of \<open>s\<close>: a dot, then p, d, f in either case, then the end of the
  input. The replacement tries each start position from the left and removes the first
  match.
\<close>

fun pdf_ext_here :: "string \<Rightarrow> bool" where
  "pdf_ext_here [c0, c1, c2, c3] =
     (c0 = CHR ''.'' \<and> (c1 = CHR ''p'' \<or> c1 = CHR ''P'')
       \<and> (c2 = CHR ''d'' \<or> c2 = CHR ''D'') \<and> (c3 = CHR ''f'' \<or> c3 = CHR ''F''))"
| "pdf_ext_here s = False"

fun replace_pdf_ext :: "string \<Rightarrow> string" where
  "replace_pdf_ext [] = []"
| "replace_pdf_ext (c # cs) =
     (if pdf_ext_here (c # cs) then [] else c # replace_pdf_ext cs)"

text \<open>\<open>URL.createObjectURL(blob)\<close>: a blob URL, scheme first.\<close>

definition createObjectURL :: "env \<Rightarrow> Blob \<Rightarrow> string" where
  "createObjectURL env blob = ''blob:'' @ objectUrlId env"

text \<open>
  Lines 195-198: the name with the extension replaced, and the \<open>File\<close> built from the
  blob under that name. A \<open>File\<close> built from one blob has that blob's size.
\<close>

definition imageFile :: "File \<Rightarrow> Blob \<Rightarrow> File" where
  "imageFile f blob =
     (let originalName = replace_pdf_ext (fname f)
      in \<lparr>fname = originalName @ ''.png'', ftype = ''image/png'', fsize = blob_size blob\<rparr>)"

text \<open>
  The callback given to \<open>canvas.toBlob\<close> (lines 191-213), with the value it passes to
  \<open>resolve\<close> as its result.
\<close>

definition toBlob_callback :: "env \<Rightarrow> File \<Rightarrow> Blob option \<Rightarrow> call list \<times> PdfConversionResult" where
  "toBlob_callback env f blob =
     (case blob of
        Some b \<Rightarrow>
          if blob_size b > 0 then
            ([NewFile, CreateObjectURL],
             \<lparr>imageUrl = createObjectURL env b, file = Some (imageFile f b), error = None\<rparr>)
          else
            ([], \<lparr>imageUrl = '''', file = None,
                  error = Some ''Failed to create image blob or blob is empty''\<rparr>)
      | None \<Rightarrow>
          ([], \<lparr>imageUrl = '''', file = None,
                error = Some ''Failed to create image blob or blob is empty''\<rparr>))"

text \<open>
  \<open>new Promise((resolve) => { canvas.toBlob(callback, "image/png", 0.95) })\<close> (lines
  188-217). The executor calls \<open>canvas.toBlob\<close>; when that throws, the promise
  constructor rejects the promise with the thrown value; otherwise the promise fulfils
  with what the callback resolves it with.
\<close>

definition canvas_toBlob_promise :: "env \<Rightarrow> File \<Rightarrow> call list \<times> (thrown + PdfConversionResult)" where
  "canvas_toBlob_promise env f =
     (case toBlob env of
        Inl e \<Rightarrow> ([ToBlob], Inl e)
      | Inr blob \<Rightarrow>
          (case toBlob_callback env f blob of (t, r) \<Rightarrow> (ToBlob # t, Inr r)))"

text \<open>
  The body of the \<open>try\<close> block (lines 115-217). What it returns is the promise of
  lines 188-217, which is returned without being awaited: the block itself ends normally
  (\<open>Inr\<close>) with that promise, however the promise settles.
\<close>

definition try_block :: "env \<Rightarrow> File option \<Rightarrow> (thrown + PdfConversionResult) io" where
  "try_block env input =
     bind_io (validate input) (\<lambda>f.
     bind_io (loadPdfJs env) (\<lambda>lib.
     bind_io (step ArrayBuffer (arrayBuffer env)) (\<lambda>byteLength.
     bind_io (step GetDocument (getDocument env)) (\<lambda>numPages.
       if numPages = 0 then throw (ErrorObj ''PDF has no pages'')
       else
     bind_io (step (GetPage 1) (getPage env)) (\<lambda>page.
     bind_io (step (GetViewport 2) (Inr (getViewport env))) (\<lambda>(width, height).
     bind_io (step CreateCanvas (Inr ())) (\<lambda>canvas.
     bind_io (step GetContext (Inr (getContext env))) (\<lambda>context.
       if \<not> context then throw (ErrorObj ''Failed to get 2D context from canvas'')
       else
     bind_io (step (FillRect width height) (Inr ())) (\<lambda>u.
     bind_io (step Render (render env)) (\<lambda>v.
       (case canvas_toBlob_promise env f of (t, p) \<Rightarrow> (t, Inr p))))))))))))"

text \<open>
  \<open>convertPdfToImage\<close> (lines 111-227). A throw inside the \<open>try\<close> block is caught and
  turned into an error result; otherwise the function's promise follows the promise the
  block returned, a rejection included, since the \<open>catch\<close> only sees what is thrown
  while the block runs. \<open>Inl\<close> in the result is a rejection reaching the caller.
\<close>

definition convertPdfToImage :: "env \<Rightarrow> File option \<Rightarrow> call list \<times> (thrown + PdfConversionResult)" where
  "convertPdfToImage env input =
     (case try_block env input of
        (t, Inl err) \<Rightarrow>
          (t, Inr \<lparr>imageUrl = '''', file = None, error = Some (errorMessage err)\<rparr>)
      | (t, Inr p) \<Rightarrow> (t, p))"

subsection \<open>The CDN loader and its callers\<close>

text \<open>
  The promise created at line 26 and the script element its executor appends to
  \<open>document.head\<close> belong together: entry \<open>i\<close> of \<open>head_scripts\<close> holds both. A
  script is \<open>Fetching\<close> until its \<open>load\<close> or \<open>error\<close> event, \<open>Importing\<close> while the
  dynamic import of line 44 is under way, and \<open>Finished\<close> afterwards.
\<close>

datatype settled = Pending | Fulfilled pdfjs_lib | Rejected thrown

datatype script_phase = Fetching | Importing | Finished

record injected =
  promise :: settled
  script :: script_phase

text \<open>
  What the body of \<open>loadPdfJsFromCDN\<close> returns: the cached engine, or the memoized
  promise (by its index). The \<open>async\<close> wrapper hands every caller a promise that follows
  the returned one.
\<close>

datatype returned = Lib pdfjs_lib | Promise nat

text \<open>
  A conversion that is inside \<open>loadPdfJs\<close>: awaiting its local import, or, after the
  local import failed, awaiting what \<open>loadPdfJsFromCDN()\<close> returned to it.
\<close>

datatype conversion = LocalImport | AwaitCDN returned

text \<open>
  The module variables \<open>isLoading\<close> and \<open>loadPromise\<close> (lines 14-15), the global
  \<open>window.pdfjsLib\<close>, the script elements injected so far, and the conversions begun so
  far.
\<close>

record page =
  pdfjsLib :: "pdfjs_lib option"
  isLoading :: bool
  loadPromise :: "nat option"
  head_scripts :: "injected list"
  conversions :: "conversion list"

definition fresh :: page where
  "fresh = \<lparr>pdfjsLib = None, isLoading = False, loadPromise = None, head_scripts = [],
            conversions = []\<rparr>"

definition cdn_worker :: string where
  "cdn_worker = ''https://cdnjs.cloudflare.com/ajax/libs/pdf.js/4.0.379/pdf.worker.min.mjs''"

text \<open>
  \<open>loadPdfJsFromCDN\<close> (lines 17-66). The body runs to its \<open>return\<close> without
  suspending; the executor of the new promise runs inside it.
\<close>

definition loadPdfJsFromCDN :: "page \<Rightarrow> returned \<times> page" where
  "loadPdfJsFromCDN s =
     (case pdfjsLib s of
        Some lib \<Rightarrow> (Lib lib, s)
      | None \<Rightarrow>
          (case loadPromise s of
             Some p \<Rightarrow> (Promise p, s)
           | None \<Rightarrow>
               (let p = length (head_scripts s)
                in (Promise p,
                    s\<lparr>isLoading := True,
                      loadPromise := Some p,
                      head_scripts := head_scripts s @ [\<lparr>promise = Pending, script = Fetching\<rparr>]\<rparr>))))"

text \<open>\<open>resolve\<close> and \<open>reject\<close> of promise \<open>i\<close>: a settled promise stays as it is.\<close>

definition settle :: "nat \<Rightarrow> settled \<Rightarrow> script_phase \<Rightarrow> page \<Rightarrow> page" where
  "settle i v ph s =
     s\<lparr>head_scripts :=
         (head_scripts s)[i := \<lparr>promise = (if promise (head_scripts s ! i) = Pending then v
                                             else promise (head_scripts s ! i)),
                                 script = ph\<rparr>]\<rparr>"

text \<open>\<open>script.onload\<close> (lines 32-53), up to the start of the dynamic import.\<close>

definition script_onload :: "nat \<Rightarrow> page \<Rightarrow> page" where
  "script_onload i s =
     (case pdfjsLib s of
        Some lib \<Rightarrow>
          (let lib' = lib\<lparr>workerSrc := cdn_worker\<rparr>
           in settle i (Fulfilled lib') Finished (s\<lparr>pdfjsLib := Some lib', isLoading := False\<rparr>))
      | None \<Rightarrow> settle i Pending Importing s)"

text \<open>\<open>script.onerror\<close> (lines 55-60).\<close>

definition script_onerror :: "nat \<Rightarrow> page \<Rightarrow> page" where
  "script_onerror i s =
     settle i (Rejected (ErrorObj ''Failed to load PDF.js from CDN'')) Finished
       (s\<lparr>isLoading := False, loadPromise := None\<rparr>)"

text \<open>The \<open>then\<close> callback of the dynamic import (lines 45-50).\<close>

definition import_then :: "nat \<Rightarrow> pdfjs_lib \<Rightarrow> page \<Rightarrow> page" where
  "import_then i lib s =
     (let lib' = lib\<lparr>workerSrc := cdn_worker\<rparr>
      in settle i (Fulfilled lib') Finished (s\<lparr>pdfjsLib := Some lib', isLoading := False\<rparr>))"

text \<open>\<open>.catch(reject)\<close> (line 51): nothing but the promise changes.\<close>

definition import_catch :: "nat \<Rightarrow> thrown \<Rightarrow> page \<Rightarrow> page" where
  "import_catch i e s = settle i (Rejected e) Finished s"

text \<open>
  What can happen on the page, one event at a time:
  \<^item> \<open>Begin\<close>: a new conversion enters \<open>loadPdfJs\<close> and starts its local import;
  \<^item> \<open>LocalFailed c\<close>: the local import of conversion \<open>c\<close> has failed, and its
    \<open>catch\<close> block (line 103) calls \<open>loadPdfJsFromCDN()\<close>;
  \<^item> \<open>ScriptLoaded i g\<close>: script \<open>i\<close> has run and its \<open>load\<close> event fires; \<open>g\<close> is
    the engine the script has stored in \<open>window.pdfjsLib\<close>, if it stored one;
  \<^item> \<open>ScriptError i\<close>: the \<open>error\<close> event of script \<open>i\<close> fires;
  \<^item> \<open>ImportFulfilled i lib\<close>, \<open>ImportRejected i e\<close>: the dynamic import started by
    the \<open>load\<close> handler of script \<open>i\<close> settles.
  An event that cannot happen in the state it meets changes nothing.
\<close>

datatype event =
    Begin
  | LocalFailed nat
  | ScriptLoaded nat "pdfjs_lib option"
  | ScriptError nat
  | ImportFulfilled nat pdfjs_lib
  | ImportRejected nat thrown

definition in_phase :: "page \<Rightarrow> nat \<Rightarrow> script_phase \<Rightarrow> bool" where
  "in_phase s i ph = (i < length (head_scripts s) \<and> script (head_scripts s ! i) = ph)"

fun fire :: "event \<Rightarrow> page \<Rightarrow> page" where
  "fire Begin s = s\<lparr>conversions := conversions s @ [LocalImport]\<rparr>"
| "fire (LocalFailed c) s =
     (if c < length (conversions s) \<and> conversions s ! c = LocalImport then
        (case loadPdfJsFromCDN s of
           (r, s') \<Rightarrow> s'\<lparr>conversions := (conversions s')[c := AwaitCDN r]\<rparr>)
      else s)"
| "fire (ScriptLoaded i g) s =
     (if in_phase s i Fetching then
        script_onload i (case g of None \<Rightarrow> s | Some lib \<Rightarrow> s\<lparr>pdfjsLib := Some lib\<rparr>)
      else s)"
| "fire (ScriptError i) s = (if in_phase s i Fetching then script_onerror i s else s)"
| "fire (ImportFulfilled i lib) s = (if in_phase s i Importing then import_then i lib s else s)"
| "fire (ImportRejected i e) s = (if in_phase s i Importing then import_catch i e s else s)"

fun run :: "event list \<Rightarrow> page \<Rightarrow> page" where
  "run [] s = s"
| "run (e # es) s = run es (fire e s)"

text \<open>
  A conversion is still inside \<open>loadPdfJs\<close> while its local import is under way or
  the promise it awaits is pending.
\<close>

definition in_flight :: "page \<Rightarrow> nat \<Rightarrow> bool" where
  "in_flight s c =
     (c < length (conversions s) \<and>
      (case conversions s ! c of
         LocalImport \<Rightarrow> True
       | AwaitCDN (Lib lib) \<Rightarrow> False
       | AwaitCDN (Promise p) \<Rightarrow>
           p < length (head_scripts s) \<and> promise (head_scripts s ! p) = Pending))"

subsection \<open>Example values\<close>

definition example_lib :: pdfjs_lib where
  "example_lib = \<lparr>build = ''pdfjs-dist'', workerSrc = ''''\<rparr>"

definition example_env :: env where
  "example_env =
     \<lparr>import_standard = Inr example_lib,
      import_build_path = Inl (ErrorObj ''Cannot find module''),
      cdn_promise = Inl (ErrorObj ''Failed to load PDF.js from CDN''),
      arrayBuffer = Inr 48213,
      getDocument = Inr 1,
      getPage = Inr (),
      getViewport = (1224, 1584),
      getContext = True,
      render = Inr (),
      toBlob = Inr (Some \<lparr>blob_size = 187334\<rparr>),
      objectUrlId = ''http://localhost:5173/0c5a1f5e''\<rparr>"

definition example_pdf :: File where
  "example_pdf = \<lparr>fname = ''resume.PDF'', ftype = ''application/pdf'', fsize = 48213\<rparr>"

subsection \<open>The invariant of a load that no script error interrupts\<close>

text \<open>
  Relative to a starting state \<open>s0\<close> with no engine and no memoized promise: at most one
  script has been added; the memoized promise, if there is one, is the one created for
  it; and every conversion is where it was in \<open>s0\<close>, or awaits its local import, or was
  handed that promise or the cached engine.
\<close>

definition single_flight_inv :: "page \<Rightarrow> page \<Rightarrow> bool" where
  "single_flight_inv s0 s =
     (length (head_scripts s) \<le> length (head_scripts s0) + 1
      \<and> (loadPromise s = None \<or> loadPromise s = Some (length (head_scripts s0)))
      \<and> (pdfjsLib s = None \<and> loadPromise s = None \<longrightarrow>
           length (head_scripts s) = length (head_scripts s0))
      \<and> length (conversions s0) \<le> length (conversions s)
      \<and> (\<forall>c < length (conversions s).
           conversions s ! c = LocalImport
           \<or> conversions s ! c = AwaitCDN (Promise (length (head_scripts s0)))
           \<or> (\<exists>lib. conversions s ! c = AwaitCDN (Lib lib))
           \<or> (c < length (conversions s0) \<and> conversions s ! c = conversions s0 ! c)))"

section \<open>Properties\<close>

subsection \<open>Auxiliary facts\<close>

lemmas io_defs = ret_def throw_def step_def bind_io_def

lemmas handler_defs = settle_def script_onload_def script_onerror_def import_then_def
  import_catch_def

lemmas page_defs = fresh_def loadPdfJsFromCDN_def in_phase_def in_flight_def Let_def

lemmas example_defs = example_env_def example_pdf_def example_lib_def

lemma loadPdfJs_trace:
  "set (fst (loadPdfJs env)) \<subseteq> {ImportStandard, ImportBuildPath, LoadFromCDN}"
  by (auto simp: loadPdfJs_def loadPdfJsLocal_def io_defs split: prod.splits sum.splits)

text \<open>
  For a file object the checks run in the order type, empty, too large, and the first
  one that fails decides the error.
\<close>

lemma validate_Some:
  "validate (Some f) =
     (if ftype f \<noteq> ''application/pdf'' then
        ([], Inl (ErrorObj (''Invalid file type: '' @ ftype f @ ''. Expected: application/pdf'')))
      else if fsize f = 0 then ([], Inl (ErrorObj ''File is empty''))
      else if fsize f > 52428800 then ([], Inl (ErrorObj ''File is too large (max 50MB)''))
      else ([], Inr f))"
  by (simp add: validate_def read_name_size_def io_defs)

lemma validate_None: "validate None = ([], Inl (ErrorObj null_read_message))"
  by (simp add: validate_def read_name_size_def io_defs)

lemma convert_validation_error:
  "validate input = (t, Inl e) \<Longrightarrow>
   convertPdfToImage env input =
     (t, Inr \<lparr>imageUrl = '''', file = None, error = Some (errorMessage e)\<rparr>)"
  by (simp add: convertPdfToImage_def try_block_def bind_io_def)

text \<open>Once validation and the engine load have succeeded, the rest of the block runs.\<close>

lemma try_block_after_load:
  assumes "validate input = ([], Inr f)" and "loadPdfJs env = (tload, Inr lib)"
  shows "try_block env input =
     (case
        bind_io (step ArrayBuffer (arrayBuffer env)) (\<lambda>byteLength.
        bind_io (step GetDocument (getDocument env)) (\<lambda>numPages.
          if numPages = 0 then throw (ErrorObj ''PDF has no pages'')
          else
        bind_io (step (GetPage 1) (getPage env)) (\<lambda>page.
        bind_io (step (GetViewport 2) (Inr (getViewport env))) (\<lambda>(width, height).
        bind_io (step CreateCanvas (Inr ())) (\<lambda>canvas.
        bind_io (step GetContext (Inr (getContext env))) (\<lambda>context.
          if \<not> context then throw (ErrorObj ''Failed to get 2D context from canvas'')
          else
        bind_io (step (FillRect width height) (Inr ())) (\<lambda>u.
        bind_io (step Render (render env)) (\<lambda>v.
          (case canvas_toBlob_promise env f of (t, p) \<Rightarrow> (t, Inr p))))))))))
      of (t, r) \<Rightarrow> (tload @ t, r))"
  using assms by (simp add: try_block_def bind_io_def split: prod.splits sum.splits)

lemma example_loadPdfJs:
  "loadPdfJs (example_env\<lparr>getDocument := d, toBlob := b\<rparr>) =
     ([ImportStandard], Inr (example_lib\<lparr>workerSrc := ''/pdf.worker.min.mjs''\<rparr>))"
  by (simp add: loadPdfJs_def loadPdfJsLocal_def io_defs example_env_def)

lemma pdf_ext_here_length: "pdf_ext_here s \<Longrightarrow> length s = 4"
  by (induction s rule: pdf_ext_here.induct) auto

lemma replace_pdf_ext_suffix: "pdf_ext_here s \<Longrightarrow> replace_pdf_ext (b @ s) = b"
proof (induction b)
  case Nil
  then show ?case by (cases s) auto
next
  case (Cons c b)
  have "\<not> pdf_ext_here (c # b @ s)"
    using pdf_ext_here_length [of "c # b @ s"] pdf_ext_here_length [OF Cons.prems] by auto
  then show ?case using Cons by simp
qed

lemma replace_pdf_ext_unmatched:
  "\<not> pdf_ext_here (drop (length n - 4) n) \<Longrightarrow> replace_pdf_ext n = n"
proof (induction n)
  case Nil
  then show ?case by simp
next
  case (Cons c cs)
  show ?case
  proof (cases "4 \<le> length cs")
    case True
    then have "length (c # cs) - 4 = Suc (length cs - 4)" by simp
    then have d: "drop (length (c # cs) - 4) (c # cs) = drop (length cs - 4) cs" by simp
    have "\<not> pdf_ext_here (c # cs)"
      using pdf_ext_here_length [of "c # cs"] True by auto
    then show ?thesis using Cons d by simp
  next
    case False
    then have "drop (length (c # cs) - 4) (c # cs) = c # cs" by simp
    then have nc: "\<not> pdf_ext_here (c # cs)" using Cons.prems by simp
    have "\<not> pdf_ext_here (drop (length cs - 4) cs)"
      using pdf_ext_here_length [of "drop (length cs - 4) cs"] False by auto
    then show ?thesis using Cons.IH nc by simp
  qed
qed

text \<open>Only the last four characters can go, and only when they match.\<close>

lemma replace_pdf_ext_last4:
  "replace_pdf_ext n =
     (if pdf_ext_here (drop (length n - 4) n) then take (length n - 4) n else n)"
proof (cases "pdf_ext_here (drop (length n - 4) n)")
  case True
  have "replace_pdf_ext (take (length n - 4) n @ drop (length n - 4) n) = take (length n - 4) n"
    by (rule replace_pdf_ext_suffix [OF True])
  then show ?thesis using True by simp
next
  case False
  then show ?thesis by (simp add: replace_pdf_ext_unmatched)
qed




lemma single_flight_inv_init:
  "pdfjsLib s = None \<Longrightarrow> loadPromise s = None \<Longrightarrow> single_flight_inv s s"
  by (simp add: single_flight_inv_def)

lemma inv_Begin: "single_flight_inv s0 s \<Longrightarrow> single_flight_inv s0 (fire Begin s)"
  by (auto simp: single_flight_inv_def nth_append)

lemma inv_LocalFailed:
  "single_flight_inv s0 s \<Longrightarrow> single_flight_inv s0 (fire (LocalFailed c) s)"
  by (auto simp: single_flight_inv_def loadPdfJsFromCDN_def Let_def nth_list_update
      split: option.splits)

lemma inv_ScriptLoaded:
  "single_flight_inv s0 s \<Longrightarrow> single_flight_inv s0 (fire (ScriptLoaded i g) s)"
  by (auto simp: single_flight_inv_def handler_defs Let_def split: option.splits)

lemma inv_ImportFulfilled:
  "single_flight_inv s0 s \<Longrightarrow> single_flight_inv s0 (fire (ImportFulfilled i lib) s)"
  by (auto simp: single_flight_inv_def handler_defs Let_def)

lemma inv_ImportRejected:
  "single_flight_inv s0 s \<Longrightarrow> single_flight_inv s0 (fire (ImportRejected i e) s)"
  by (auto simp: single_flight_inv_def handler_defs)

lemma inv_fire:
  assumes "single_flight_inv s0 s" and "\<forall>i. e \<noteq> ScriptError i"
  shows "single_flight_inv s0 (fire e s)"
proof (cases e)
  case Begin
  then show ?thesis using assms(1) inv_Begin by simp
next
  case (LocalFailed c)
  then show ?thesis using assms(1) inv_LocalFailed by simp
next
  case (ScriptLoaded i g)
  then show ?thesis using assms(1) inv_ScriptLoaded by simp
next
  case (ScriptError i)
  then show ?thesis using assms(2) by simp
next
  case (ImportFulfilled i lib)
  then show ?thesis using assms(1) inv_ImportFulfilled by simp
next
  case (ImportRejected i e)
  then show ?thesis using assms(1) inv_ImportRejected by simp
qed

lemma inv_run:
  "single_flight_inv s0 s \<Longrightarrow> \<forall>i. ScriptError i \<notin> set es \<Longrightarrow> single_flight_inv s0 (run es s)"
proof (induction es arbitrary: s)
  case Nil
  then show ?case by simp
next
  case (Cons e es)
  have "single_flight_inv s0 (fire e s)"
    using Cons.prems by (intro inv_fire) auto
  then show ?case using Cons by simp
qed

subsection \<open>Rejection and resolution\<close>

text \<open>
  Whatever is thrown while the \<open>try\<close> block runs (by a validation check, by the engine
  load, by parsing or rendering) ends as a result with empty \<open>imageUrl\<close>, null \<open>file\<close>
  and the thrown value's message in \<open>error\<close>.
\<close>

lemma try_block_throw_is_caught:
  "try_block env input = (t, Inl e) \<Longrightarrow>
   convertPdfToImage env input =
     (t, Inr \<lparr>imageUrl = '''', file = None, error = Some (errorMessage e)\<rparr>)"
  by (simp add: convertPdfToImage_def)

text \<open>
  How the function's promise settles: it resolves to a result of the shape of
  \<open>PdfConversionResult\<close>'s invariant, or it rejects with what \<open>canvas.toBlob\<close> threw.
\<close>

lemma convert_outcome:
  "(\<exists>t r. convertPdfToImage env input = (t, Inr r)
      \<and> ((file r \<noteq> None \<and> imageUrl r \<noteq> '''') \<noteq> (error r \<noteq> None)))
   \<or> (\<exists>t e. convertPdfToImage env input = (t, Inl e) \<and> toBlob env = Inl e)"
  by (auto simp: convertPdfToImage_def canvas_toBlob_promise_def toBlob_callback_def
      try_block_def io_defs createObjectURL_def
      split: prod.splits sum.splits option.splits if_splits)

lemma rejects_only_by_toBlob:
  "convertPdfToImage env input = (t, Inl e) \<Longrightarrow> toBlob env = Inl e"
  using convert_outcome [of env input] by auto

text \<open>When \<open>canvas.toBlob\<close> does not throw, the function resolves.\<close>

lemma resolves_unless_toBlob_throws:
  assumes "toBlob env = Inr b"
  shows "\<exists>t r. convertPdfToImage env input = (t, Inr r)"
  using convert_outcome [of env input] assms by auto

text \<open>
  C1. The claim has \<open>convertPdfToImage\<close> never reject. The promise of lines 188-217 is
  returned from inside the \<open>try\<close> without \<open>await\<close>, so the \<open>catch\<close> does not see
  its rejection: for a valid one-page PDF whose rendering succeeds, a throw of
  \<open>canvas.toBlob\<close> reaches the caller as a rejection, with no result.
\<close>

theorem toBlob_throw_rejects:
  "convertPdfToImage
     (example_env\<lparr>toBlob := Inl (ErrorObj ''The operation is insecure.'')\<rparr>)
     (Some example_pdf) =
     ([ImportStandard, ArrayBuffer, GetDocument, GetPage 1, GetViewport 2, CreateCanvas,
       GetContext, FillRect 1224 1584, Render, ToBlob],
      Inl (ErrorObj ''The operation is insecure.''))"
  by (simp add: convertPdfToImage_def try_block_def validate_def read_name_size_def
      loadPdfJs_def loadPdfJsLocal_def canvas_toBlob_promise_def io_defs example_defs)

subsection \<open>The shape of every result\<close>

text \<open>
  C2. Every result \<open>convertPdfToImage\<close> resolves to satisfies exactly one of: \<open>file\<close>
  is non-null and \<open>imageUrl\<close> is non-empty; or \<open>error\<close> is present. Both are never
  absent, and both never hold together. There is such a result whenever
  \<open>canvas.toBlob\<close> does not throw.
\<close>

theorem result_file_xor_error:
  "(\<forall>t r. convertPdfToImage env input = (t, Inr r) \<longrightarrow>
       ((file r \<noteq> None \<and> imageUrl r \<noteq> '''') \<noteq> (error r \<noteq> None)))
   \<and> (\<forall>b. toBlob env = Inr b \<longrightarrow>
         (\<exists>t r. convertPdfToImage env input = (t, Inr r)
            \<and> ((file r \<noteq> None \<and> imageUrl r \<noteq> '''') \<noteq> (error r \<noteq> None))))"
  using convert_outcome [of env input] by auto

theorem result_file_xor_error_witness:
  "\<exists>t r. convertPdfToImage example_env (Some example_pdf) = (t, Inr r)
     \<and> toBlob example_env = Inr (Some \<lparr>blob_size = 187334\<rparr>)
     \<and> file r \<noteq> None \<and> imageUrl r \<noteq> '''' \<and> error r = None"
proof -
  have b: "toBlob example_env = Inr (Some \<lparr>blob_size = 187334\<rparr>)"
    by (simp add: example_env_def)
  have r: "snd (convertPdfToImage example_env (Some example_pdf)) =
      Inr \<lparr>imageUrl = ''blob:http://localhost:5173/0c5a1f5e'',
            file = Some \<lparr>fname = ''resume.png'', ftype = ''image/png'', fsize = 187334\<rparr>,
            error = None\<rparr>"
    by (simp add: convertPdfToImage_def try_block_def validate_def read_name_size_def
        loadPdfJs_def loadPdfJsLocal_def canvas_toBlob_promise_def toBlob_callback_def
        createObjectURL_def imageFile_def io_defs example_defs)
  from result_file_xor_error [of example_env "Some example_pdf"] b
  obtain t r where "convertPdfToImage example_env (Some example_pdf) = (t, Inr r)"
    by blast
  then show ?thesis using b r by auto
qed

subsection \<open>Validation\<close>

text \<open>
  C3. The claim has a null file answered with the error \<open>No file provided\<close>. The check
  for it (line 118) comes after the log line that reads \<open>file.name\<close> (line 115), so for
  a null file the \<open>TypeError\<close> of that read is what is caught, and its message is the
  error returned.
\<close>

theorem null_file_error_message:
  "convertPdfToImage env None =
     ([], Inr \<lparr>imageUrl = '''', file = None, error = Some null_read_message\<rparr>)
   \<and> null_read_message \<noteq> ''No file provided''"
  by (simp add: convert_validation_error [OF validate_None] null_read_message_def)

text \<open>
  C4. A PDF-typed file of more than 50 * 1024 * 1024 bytes gets the size-limit error, and
  a PDF-typed file of exactly 50 * 1024 * 1024 bytes passes validation.
\<close>

theorem size_limit_50MiB:
  assumes pdf: "ftype f = ''application/pdf''"
  shows "(50 * 1024 * 1024 < fsize f \<longrightarrow>
           convertPdfToImage env (Some f) =
             ([], Inr \<lparr>imageUrl = '''', file = None,
                       error = Some ''File is too large (max 50MB)''\<rparr>))
       \<and> (fsize f = 50 * 1024 * 1024 \<longrightarrow> validate (Some f) = ([], Inr f))"
proof (intro conjI impI)
  assume "50 * 1024 * 1024 < fsize f"
  then have "validate (Some f) = ([], Inl (ErrorObj ''File is too large (max 50MB)''))"
    using pdf by (simp add: validate_Some)
  from convert_validation_error [OF this, of env]
  show "convertPdfToImage env (Some f) =
     ([], Inr \<lparr>imageUrl = '''', file = None, error = Some ''File is too large (max 50MB)''\<rparr>)"
    by simp
next
  assume "fsize f = 50 * 1024 * 1024"
  then show "validate (Some f) = ([], Inr f)"
    using pdf by (simp add: validate_Some)
qed

theorem size_limit_50MiB_witness:
  "convertPdfToImage example_env (Some (example_pdf\<lparr>fsize := 52428801\<rparr>)) =
     ([], Inr \<lparr>imageUrl = '''', file = None, error = Some ''File is too large (max 50MB)''\<rparr>)
   \<and> validate (Some (example_pdf\<lparr>fsize := 52428800\<rparr>))
       = ([], Inr (example_pdf\<lparr>fsize := 52428800\<rparr>))"
  using size_limit_50MiB [of "example_pdf\<lparr>fsize := 52428801\<rparr>" example_env]
    size_limit_50MiB [of "example_pdf\<lparr>fsize := 52428800\<rparr>" example_env]
  by (simp add: example_pdf_def)

subsection \<open>The successful conversion\<close>



text \<open>
  C10. The output name: a trailing \<open>.pdf\<close> or \<open>.PDF\<close> is replaced by \<open>.png\<close>; a name
  that does not end in \<open>.pdf\<close> (in any case) gets \<open>.png\<close> appended to the whole name,
  so \<open>doc\<close> becomes \<open>doc.png\<close> and \<open>doc.txt\<close> becomes \<open>doc.txt.png\<close>; and whatever
  stands before the last four characters, a \<open>.pdf\<close> included, is kept.
\<close>

theorem png_name_strips_trailing_pdf:
  "(fname f = base @ ''.pdf'' \<or> fname f = base @ ''.PDF'' \<longrightarrow>
      fname (imageFile f b) = base @ ''.png'')
   \<and> (\<not> pdf_ext_here (drop (length (fname f) - 4) (fname f)) \<longrightarrow>
        fname (imageFile f b) = fname f @ ''.png'')
   \<and> fname (imageFile (f\<lparr>fname := ''doc''\<rparr>) b) = ''doc.png''
   \<and> fname (imageFile (f\<lparr>fname := ''doc.txt''\<rparr>) b) = ''doc.txt.png''
   \<and> take (length (fname f) - 4) (fname (imageFile f b)) = take (length (fname f) - 4) (fname f)"
proof (intro conjI impI)
  assume "fname f = base @ ''.pdf'' \<or> fname f = base @ ''.PDF''"
  then show "fname (imageFile f b) = base @ ''.png''"
    by (auto simp: imageFile_def replace_pdf_ext_suffix)
next
  assume "\<not> pdf_ext_here (drop (length (fname f) - 4) (fname f))"
  then show "fname (imageFile f b) = fname f @ ''.png''"
    by (simp add: imageFile_def replace_pdf_ext_unmatched)
next
  show "fname (imageFile (f\<lparr>fname := ''doc''\<rparr>) b) = ''doc.png''"
    by (simp add: imageFile_def)
next
  show "fname (imageFile (f\<lparr>fname := ''doc.txt''\<rparr>) b) = ''doc.txt.png''"
    by (simp add: imageFile_def)
next
  show "take (length (fname f) - 4) (fname (imageFile f b)) = take (length (fname f) - 4) (fname f)"
    by (simp add: imageFile_def replace_pdf_ext_last4)
qed

theorem png_name_strips_trailing_pdf_witness:
  "fname (imageFile (example_pdf\<lparr>fname := ''cv.pdf''\<rparr>) \<lparr>blob_size = 1\<rparr>) = ''cv.png''
   \<and> fname (imageFile example_pdf \<lparr>blob_size = 1\<rparr>) = ''resume.png''
   \<and> fname (imageFile (example_pdf\<lparr>fname := ''cv.pdf.txt''\<rparr>) \<lparr>blob_size = 1\<rparr>)
       = ''cv.pdf.txt.png''
   \<and> fname (imageFile (example_pdf\<lparr>fname := ''cv.pdf.pdf''\<rparr>) \<lparr>blob_size = 1\<rparr>)
       = ''cv.pdf.png''"
  using png_name_strips_trailing_pdf
      [of "example_pdf\<lparr>fname := ''cv.pdf''\<rparr>" "''cv''" "\<lparr>blob_size = 1\<rparr>"]
    png_name_strips_trailing_pdf [of example_pdf "''resume''" "\<lparr>blob_size = 1\<rparr>"]
    png_name_strips_trailing_pdf
      [of "example_pdf\<lparr>fname := ''cv.pdf.txt''\<rparr>" "''cv''" "\<lparr>blob_size = 1\<rparr>"]
    png_name_strips_trailing_pdf
      [of "example_pdf\<lparr>fname := ''cv.pdf.pdf''\<rparr>" "''cv.pdf''" "\<lparr>blob_size = 1\<rparr>"]
  by (simp add: example_pdf_def)

subsection \<open>Failures after validation\<close>

text \<open>
  C6. When everything up to rendering succeeds and \<open>toBlob\<close> hands its callback no
  blob or an empty one, \<open>convertPdfToImage\<close> resolves to the result with empty \<open>imageUrl\<close>, null \<open>file\<close>
  and the error \<open>Failed to create image blob or blob is empty\<close>.
\<close>

theorem empty_blob_result:
  assumes "ftype f = ''application/pdf''" and "0 < fsize f" and "fsize f \<le> 50 * 1024 * 1024"
    and "loadPdfJs env = (tload, Inr lib)"
    and "arrayBuffer env = Inr n"
    and "getDocument env = Inr numPages" and "0 < numPages"
    and "getPage env = Inr ()"
    and "getContext env"
    and "render env = Inr ()"
    and "toBlob env = Inr None \<or> toBlob env = Inr (Some \<lparr>blob_size = 0\<rparr>)"
  shows "snd (convertPdfToImage env (Some f)) =
            Inr \<lparr>imageUrl = '''', file = None,
                 error = Some ''Failed to create image blob or blob is empty''\<rparr>"
proof -
  have v: "validate (Some f) = ([], Inr f)"
    using assms(1-3) by (simp add: validate_Some)
  show ?thesis
    using assms(5-11)
    by (auto simp add: convertPdfToImage_def try_block_after_load [OF v assms(4)] io_defs
        canvas_toBlob_promise_def toBlob_callback_def split: prod.splits)
qed

theorem empty_blob_result_witness:
  "snd (convertPdfToImage (example_env\<lparr>toBlob := Inr None\<rparr>) (Some example_pdf)) =
      Inr \<lparr>imageUrl = '''', file = None,
           error = Some ''Failed to create image blob or blob is empty''\<rparr>
   \<and> snd (convertPdfToImage (example_env\<lparr>toBlob := Inr (Some \<lparr>blob_size = 0\<rparr>)\<rparr>) (Some example_pdf)) =
      Inr \<lparr>imageUrl = '''', file = None,
           error = Some ''Failed to create image blob or blob is empty''\<rparr>"
proof -
  have l: "loadPdfJs (example_env\<lparr>toBlob := b\<rparr>) =
      ([ImportStandard], Inr (example_lib\<lparr>workerSrc := ''/pdf.worker.min.mjs''\<rparr>))" for b
    using example_loadPdfJs [where d = "getDocument example_env" and b = b] by (simp add: example_env_def)
  have "snd (convertPdfToImage (example_env\<lparr>toBlob := Inr None\<rparr>) (Some example_pdf)) =
      Inr \<lparr>imageUrl = '''', file = None,
           error = Some ''Failed to create image blob or blob is empty''\<rparr>"
    by (rule empty_blob_result [OF _ _ _ l, where n = 48213 and numPages = 1])
      (simp_all add: example_defs)
  moreover
  have "snd (convertPdfToImage (example_env\<lparr>toBlob := Inr (Some \<lparr>blob_size = 0\<rparr>)\<rparr>) (Some example_pdf)) =
      Inr \<lparr>imageUrl = '''', file = None,
           error = Some ''Failed to create image blob or blob is empty''\<rparr>"
    by (rule empty_blob_result [OF _ _ _ l, where n = 48213 and numPages = 1])
      (simp_all add: example_defs)
  ultimately show ?thesis by simp
qed

text \<open>
  C8. When the parsed document reports zero pages, the result carries the error
  \<open>PDF has no pages\<close>, and the steps made end with parsing the document: no page is
  fetched, nothing is rendered, nothing is encoded.
\<close>

theorem zero_pages_result:
  assumes "ftype f = ''application/pdf''" and "0 < fsize f" and "fsize f \<le> 50 * 1024 * 1024"
    and "loadPdfJs env = (tload, Inr lib)"
    and "arrayBuffer env = Inr n"
    and "getDocument env = Inr 0"
  shows "convertPdfToImage env (Some f) =
           (tload @ [ArrayBuffer, GetDocument],
            Inr \<lparr>imageUrl = '''', file = None, error = Some ''PDF has no pages''\<rparr>)
       \<and> GetPage 1 \<notin> set (fst (convertPdfToImage env (Some f)))
       \<and> Render \<notin> set (fst (convertPdfToImage env (Some f)))
       \<and> ToBlob \<notin> set (fst (convertPdfToImage env (Some f)))"
proof -
  have v: "validate (Some f) = ([], Inr f)"
    using assms(1-3) by (simp add: validate_Some)
  have r: "convertPdfToImage env (Some f) =
           (tload @ [ArrayBuffer, GetDocument],
            Inr \<lparr>imageUrl = '''', file = None, error = Some ''PDF has no pages''\<rparr>)"
    using assms(5,6)
    by (simp add: convertPdfToImage_def try_block_after_load [OF v assms(4)] io_defs)
  have "set tload \<subseteq> {ImportStandard, ImportBuildPath, LoadFromCDN}"
    using loadPdfJs_trace [of env] assms(4) by simp
  then show ?thesis
    using r by auto
qed

theorem zero_pages_result_witness:
  "convertPdfToImage (example_env\<lparr>getDocument := Inr 0\<rparr>) (Some example_pdf) =
     ([ImportStandard, ArrayBuffer, GetDocument],
      Inr \<lparr>imageUrl = '''', file = None, error = Some ''PDF has no pages''\<rparr>)"
proof -
  have l: "loadPdfJs (example_env\<lparr>getDocument := Inr 0\<rparr>) =
      ([ImportStandard], Inr (example_lib\<lparr>workerSrc := ''/pdf.worker.min.mjs''\<rparr>))"
    using example_loadPdfJs [where d = "Inr 0" and b = "toBlob example_env"] by (simp add: example_env_def)
  show ?thesis
    using zero_pages_result [OF _ _ _ l, of example_pdf 48213]
    by (simp add: example_defs)
qed

subsection \<open>The engine loader\<close>

text \<open>
  C7. \<open>loadPdfJs\<close> starts with the local import; it calls the CDN loader exactly when
  the local attempt has failed, and after it; a local success is the result; after a
  local failure a CDN success is the result; and when both fail, it fails with one
  error whose message is built from the \<open>message\<close> of the local failure and the
  \<open>message\<close> of the CDN failure, which for two errors are their messages.
\<close>

theorem loadPdfJs_local_then_cdn:
  "fst (loadPdfJs env) =
     fst (loadPdfJsLocal env) @
       (case snd (loadPdfJsLocal env) of Inl e \<Rightarrow> [LoadFromCDN] | Inr lib \<Rightarrow> [])
   \<and> hd (fst (loadPdfJs env)) = ImportStandard
   \<and> LoadFromCDN \<notin> set (fst (loadPdfJsLocal env))
   \<and> (\<forall>lib. snd (loadPdfJsLocal env) = Inr lib \<longrightarrow> snd (loadPdfJs env) = Inr lib)
   \<and> (\<forall>e lib. snd (loadPdfJsLocal env) = Inl e \<and> cdn_promise env = Inr lib \<longrightarrow>
         snd (loadPdfJs env) = Inr lib)
   \<and> (\<forall>localError cdnError.
         snd (loadPdfJsLocal env) = Inl localError \<and> cdn_promise env = Inl cdnError \<longrightarrow>
         snd (loadPdfJs env) =
           Inl (ErrorObj (''PDF.js loading failed: Local: '' @ message localError
                  @ '', CDN: '' @ message cdnError)))
   \<and> (\<forall>lm cm.
         snd (loadPdfJsLocal env) = Inl (ErrorObj lm) \<and> cdn_promise env = Inl (ErrorObj cm) \<longrightarrow>
         snd (loadPdfJs env) =
           Inl (ErrorObj (''PDF.js loading failed: Local: '' @ lm @ '', CDN: '' @ cm)))"
  by (auto simp: loadPdfJs_def loadPdfJsLocal_def io_defs split: prod.splits sum.splits)

theorem loadPdfJs_local_then_cdn_witness:
  "loadPdfJs example_env =
     ([ImportStandard], Inr (example_lib\<lparr>workerSrc := ''/pdf.worker.min.mjs''\<rparr>))
   \<and> loadPdfJs (example_env\<lparr>import_standard := Inl (ErrorObj ''Failed to fetch'')\<rparr>) =
     ([ImportStandard, ImportBuildPath, LoadFromCDN],
      Inl (ErrorObj ''PDF.js loading failed: Local: Cannot find module, CDN: Failed to load PDF.js from CDN''))
   \<and> loadPdfJs (example_env\<lparr>import_standard := Inl (ErrorObj ''Failed to fetch''),
                            cdn_promise := Inr example_lib\<rparr>) =
     ([ImportStandard, ImportBuildPath, LoadFromCDN], Inr example_lib)"
  using loadPdfJs_local_then_cdn [of example_env]
    loadPdfJs_local_then_cdn [of "example_env\<lparr>import_standard := Inl (ErrorObj ''Failed to fetch'')\<rparr>"]
    loadPdfJs_local_then_cdn [of "example_env\<lparr>import_standard := Inl (ErrorObj ''Failed to fetch''),
                            cdn_promise := Inr example_lib\<rparr>"]
  by (simp add: loadPdfJs_def loadPdfJsLocal_def io_defs example_defs)

text \<open>
  C9, as the code has it. Starting with no engine cached and no promise memoized, and as
  long as no script error event occurs: however conversions begin, fail locally and call
  the CDN loader, and however the script and its import proceed, at most one script
  element is added, and every conversion that made its call received the one promise
  created with that script, or the engine once it was cached.
\<close>

theorem cdn_single_flight:
  assumes "pdfjsLib s = None" and "loadPromise s = None" and "\<forall>i. ScriptError i \<notin> set es"
  shows "length (head_scripts (run es s)) \<le> length (head_scripts s) + 1
    \<and> (\<forall>c r. c < length (conversions (run es s)) \<and> conversions (run es s) ! c = AwaitCDN r
          \<and> (length (conversions s) \<le> c \<or> conversions s ! c = LocalImport)
          \<longrightarrow> r = Promise (length (head_scripts s)) \<or> (\<exists>lib. r = Lib lib))"
proof -
  have "single_flight_inv s (run es s)"
    using assms by (intro inv_run single_flight_inv_init)
  then show ?thesis
    by (fastforce simp: single_flight_inv_def)
qed

theorem cdn_single_flight_witness:
  "length (head_scripts (run [Begin, Begin, LocalFailed 0, LocalFailed 1, ScriptLoaded 0 None,
      Begin, LocalFailed 2, ImportFulfilled 0 example_lib, Begin, LocalFailed 3] fresh)) = 1
   \<and> conversions (run [Begin, Begin, LocalFailed 0, LocalFailed 1, ScriptLoaded 0 None,
      Begin, LocalFailed 2, ImportFulfilled 0 example_lib, Begin, LocalFailed 3] fresh)
      = [AwaitCDN (Promise 0), AwaitCDN (Promise 0), AwaitCDN (Promise 0),
         AwaitCDN (Lib (example_lib\<lparr>workerSrc := cdn_worker\<rparr>))]"
  using cdn_single_flight [of fresh "[Begin, Begin, LocalFailed 0, LocalFailed 1,
      ScriptLoaded 0 None, Begin, LocalFailed 2, ImportFulfilled 0 example_lib, Begin,
      LocalFailed 3]"]
  by (simp add: page_defs handler_defs)

text \<open>
  The claim as it stands fails when a script error comes between the two calls. Two
  conversions are in flight together with no engine cached; the script injected for the
  first one fails, which clears the memoized promise (line 58); the local import of the
  second one fails afterwards, and its call injects a second script element and gets a
  second promise.
\<close>

theorem cdn_second_script_after_error:
  "in_flight (run [Begin, LocalFailed 0, Begin] fresh) 0
   \<and> in_flight (run [Begin, LocalFailed 0, Begin] fresh) 1
   \<and> pdfjsLib (run [Begin, LocalFailed 0, Begin] fresh) = None
   \<and> length (head_scripts (run [Begin, LocalFailed 0, Begin, ScriptError 0, LocalFailed 1] fresh)) = 2
   \<and> conversions (run [Begin, LocalFailed 0, Begin, ScriptError 0, LocalFailed 1] fresh)
       = [AwaitCDN (Promise 0), AwaitCDN (Promise 1)]"
  by (simp add: page_defs handler_defs)

end
